theory Spec2Isabelle
  imports Main "HOL-Library.Word" "HOL-Library.Sublist"
begin

section \<open>The attestation ledger (contract ConfidentialExpenses)\<close>

text \<open>
  The contract keeps two mappings, \<open>userCids\<close> (address to string array) and
  \<open>attestedHashes\<close> (bytes32 to bool). A Solidity mapping is total: an unwritten key
  reads as the zero value, here the empty array and \<open>false\<close>. A failed \<open>require\<close> reverts
  the transaction, which is the value \<open>Inl (Revert msg)\<close> of the model; the state a
  reverted transaction leaves behind is the state before it (\<open>transact\<close>).
  Gas and the refusal of ether sent to a non-payable function are outside the model.
\<close>

type_synonym address = "160 word"
type_synonym bytes32 = "256 word"
type_synonym uint256 = "256 word"
type_synonym bytes = "8 word list"

record ledger =
  userCids :: "address \<Rightarrow> string list"
  attestedHashes :: "bytes32 \<Rightarrow> bool"

datatype log =
    ExpenseAttested address bytes32 string uint256 bytes
  | PublicKeyRegistered address bytes

datatype revert = Revert string

text \<open>The state of a freshly deployed contract.\<close>

definition deployed :: ledger where
  "deployed = \<lparr>userCids = (\<lambda>_. []), attestedHashes = (\<lambda>_. False)\<rparr>"

text \<open>
  \<open>attestExpense\<close>, with \<open>msg.sender\<close> and \<open>block.timestamp\<close> as the first two
  arguments. On success it returns the new state and the event it emits.
\<close>

definition attestExpense ::
  "address \<Rightarrow> uint256 \<Rightarrow> bytes32 \<Rightarrow> string \<Rightarrow> bytes \<Rightarrow> ledger \<Rightarrow> revert + ledger \<times> log" where
  "attestExpense sender block_timestamp submissionHash cid txMeta st =
     (if attestedHashes st submissionHash then Inl (Revert ''Already attested'')
      else Inr (st\<lparr>userCids := (userCids st)(sender := userCids st sender @ [cid]),
                    attestedHashes := (attestedHashes st)(submissionHash := True)\<rparr>,
                ExpenseAttested sender submissionHash cid block_timestamp txMeta))"

definition registerPublicKey :: "address \<Rightarrow> bytes \<Rightarrow> ledger \<Rightarrow> revert + ledger \<times> log" where
  "registerPublicKey sender publicKey st = Inr (st, PublicKeyRegistered sender publicKey)"

definition getUserCids :: "ledger \<Rightarrow> address \<Rightarrow> string list" where
  "getUserCids st user = userCids st user"

definition isAttested :: "ledger \<Rightarrow> bytes32 \<Rightarrow> bool" where
  "isAttested st submissionHash = attestedHashes st submissionHash"

text \<open>
  The array length lives in one uint256 storage slot, so the number returned is the length
  itself; it is a \<open>nat\<close> here.
\<close>

definition getUserAttestationCount :: "ledger \<Rightarrow> address \<Rightarrow> nat" where
  "getUserAttestationCount st user = length (userCids st user)"

subsection \<open>Transactions\<close>

datatype call = AttestExpense bytes32 string bytes | RegisterPublicKey bytes

record tx =
  tx_sender :: address
  tx_timestamp :: uint256
  tx_call :: call

record chain =
  contract :: ledger
  logs :: "log list"

fun dispatch :: "tx \<Rightarrow> ledger \<Rightarrow> revert + ledger \<times> log" where
  "dispatch t st =
     (case tx_call t of
        AttestExpense h c m \<Rightarrow> attestExpense (tx_sender t) (tx_timestamp t) h c m st
      | RegisterPublicKey k \<Rightarrow> registerPublicKey (tx_sender t) k st)"

definition transact :: "tx \<Rightarrow> chain \<Rightarrow> chain" where
  "transact t ch =
     (case dispatch t (contract ch) of
        Inl _ \<Rightarrow> ch
      | Inr (st', ev) \<Rightarrow> \<lparr>contract = st', logs = logs ch @ [ev]\<rparr>)"

definition genesis :: chain where
  "genesis = \<lparr>contract = deployed, logs = []\<rparr>"

definition run_txs :: "tx list \<Rightarrow> chain \<Rightarrow> chain" where
  "run_txs ts ch = foldl (\<lambda>c t. transact t c) ch ts"


section \<open>The record store (table \<open>expenses\<close>) and the event indexer (EthListener)\<close>

text \<open>
  One row of the table created by the migration. \<open>DATETIME\<close> columns are milliseconds
  since the epoch. The table has a unique index on \<open>cid\<close> and another on
  \<open>submissionHash\<close>. \<open>createdAt\<close> defaults to the time of the insert; \<open>updatedAt\<close> has no
  database default and no writer in the code supplies it, so the persistence client
  maintains it: it is set to the time of the write on every insert and on every update.
\<close>

record expense =
  row_id :: nat
  userAddress :: string
  cid :: string
  submissionHash :: string
  txHash :: string
  blockNumber :: "string option"
  timestamp :: nat
  category :: "string option"
  note' :: "string option"
  status :: string
  createdAt :: nat
  updatedAt :: nat

record db =
  rows :: "expense list"
  next_id :: nat




definition findUnique :: "db \<Rightarrow> string \<Rightarrow> expense option" where
  "findUnique d c = find (\<lambda>r. cid r = c) (rows d)"










subsection \<open>From the ledger's logs to the callback's arguments\<close>

text \<open>
  The chain client renders the indexed \<open>bytes32\<close> topic as \<open>0x\<close> and 64 lowercase
  hexadecimal digits. The rendering of an address (a checksum over a hash) and of the
  \<open>bytes\<close> metadata are parameters. A \<open>PublicKeyRegistered\<close> log is not delivered to the
  \<open>ExpenseAttested\<close> subscription.
\<close>

definition hex_digit :: "nat \<Rightarrow> char" where
  "hex_digit d = (if d < 10 then char_of (48 + d) else char_of (87 + d))"

fun hex_digits :: "nat \<Rightarrow> nat \<Rightarrow> string" where
  "hex_digits 0 k = []"
| "hex_digits (Suc n) k = hex_digits n (k div 16) @ [hex_digit (k mod 16)]"

definition hexlify32 :: "bytes32 \<Rightarrow> string" where
  "hexlify32 w = ''0x'' @ hex_digits 64 (unat w)"








text \<open>
  The two row updates that occur below: the one the update branch of the upsert performs
  on the rows with the given \<open>cid\<close>, and the mere change of \<open>updatedAt\<close>.
\<close>

definition confirm_where :: "string \<Rightarrow> nat \<Rightarrow> expense \<Rightarrow> expense" where
  "confirm_where c now r = (if cid r = c then r\<lparr>status := ''confirmed'', updatedAt := now\<rparr> else r)"







text \<open>A store with one pending row for the content address of \<open>ev0\<close>.\<close>

definition row_pending :: expense where
  "row_pending = \<lparr>row_id = 1, userAddress = ''0xab'', cid = ''QmA'',
     submissionHash = hexlify32 7, txHash = ''pending'', blockNumber = None,
     timestamp = 100000, category = Some ''food'', note' = Some ''lunch'',
     status = ''pending'', createdAt = 500, updatedAt = 500\<rparr>"

definition db_pending :: db where
  "db_pending = \<lparr>rows = [row_pending], next_id = 2\<rparr>"


section \<open>The content store client (IPFSService)\<close>

text \<open>
  A rejected promise or a thrown exception is \<open>Inl (Error message)\<close>. What the network
  answers is a parameter of the model (the record \<open>world\<close>); every request a function
  issues is listed in the effects it returns.
\<close>

datatype js_error = Error string

text \<open>
  A failed HTTP call as the client library reports it: its message and, when the server
  answered, the status and the detail text of the answer.
\<close>

record axios_error =
  ax_message :: string
  ax_response :: "(nat \<times> string) option"

datatype effect = HttpGet string | HttpPost string

record ipfs_config =
  PINATA_API_KEY :: string
  PINATA_SECRET_API_KEY :: string
  IPFS_GATEWAY_URL :: string

text \<open>Decimal rendering of a number in a template string.\<close>

definition digit_char :: "nat \<Rightarrow> char" where
  "digit_char d = char_of (48 + d)"

fun show_nat :: "nat \<Rightarrow> string" where
  "show_nat n = (if n < 10 then [digit_char n] else show_nat (n div 10) @ [digit_char (n mod 10)])"

definition show_int :: "int \<Rightarrow> string" where
  "show_int i = (if i < 0 then CHR ''-'' # show_nat (nat (- i)) else show_nat (nat i))"

text \<open>\<open>String.prototype.includes\<close>: the second string occurs somewhere in the first.\<close>

fun js_includes :: "string \<Rightarrow> string \<Rightarrow> bool" where
  "js_includes [] t = (t = [])"
| "js_includes (x # xs) t = (prefix t (x # xs) \<or> js_includes xs t)"

text \<open>
  \<open>getMockCid\<close>; \<open>now\<close> is \<open>Date.now()\<close> and \<open>rnd\<close> the text
  \<open>Math.random().toString(36).substring(2, 15)\<close>.
\<close>

definition getMockCid :: "nat \<Rightarrow> string \<Rightarrow> string" where
  "getMockCid now rnd = ''QmMockDemo'' @ show_nat now @ rnd"

text \<open>
  \<open>uploadToPinata\<close>: \<open>pin\<close> is the outcome of the POST, the \<open>IpfsHash\<close> of the answer
  (if it has one) or the failure. The exception for a missing hash is thrown inside the
  \<open>try\<close> and rethrown by its \<open>catch\<close>, as a failure without a server answer is.
\<close>

definition uploadToPinata :: "axios_error + string option \<Rightarrow> js_error + string" where
  "uploadToPinata pin =
     (case pin of
        Inr (Some h) \<Rightarrow> if h = [] then Inl (Error ''No CID returned from Pinata'') else Inr h
      | Inr None \<Rightarrow> Inl (Error ''No CID returned from Pinata'')
      | Inl e \<Rightarrow>
          (case ax_response e of
             Some (_, detail) \<Rightarrow> Inl (Error (''Pinata upload failed: '' @ detail))
           | None \<Rightarrow> Inl (Error (ax_message e))))"

text \<open>
  \<open>upload\<close>: \<open>pinata\<close> maps the ciphertext to the outcome of the POST of its bytes. The
  function always returns a content address.
\<close>

definition upload ::
  "ipfs_config \<Rightarrow> (string \<Rightarrow> axios_error + string option) \<Rightarrow> nat \<Rightarrow> string \<Rightarrow> string
   \<Rightarrow> string \<times> effect list" where
  "upload cfg pinata now rnd ciphertext =
     (if PINATA_API_KEY cfg = [] \<or> PINATA_SECRET_API_KEY cfg = [] then (getMockCid now rnd, [])
      else (case uploadToPinata (pinata ciphertext) of
              Inr c \<Rightarrow> (c, [HttpPost ''https://api.pinata.cloud/pinning/pinFileToIPFS''])
            | Inl _ \<Rightarrow> (getMockCid now rnd,
                        [HttpPost ''https://api.pinata.cloud/pinning/pinFileToIPFS''])))"

subsection \<open>Base64 (\<open>Buffer.toString("base64")\<close>)\<close>

definition b64_char :: "nat \<Rightarrow> char" where
  "b64_char n =
     (if n < 26 then char_of (65 + n)
      else if n < 52 then char_of (71 + n)
      else if n < 62 then char_of (n - 4)
      else if n = 62 then CHR ''+'' else CHR ''/'')"

fun b64_bytes :: "nat list \<Rightarrow> string" where
  "b64_bytes [] = []"
| "b64_bytes [a] = [b64_char (a div 4), b64_char ((a mod 4) * 16), CHR ''='', CHR ''='']"
| "b64_bytes [a, b] =
     [b64_char (a div 4), b64_char ((a mod 4) * 16 + b div 16), b64_char ((b mod 16) * 4), CHR ''='']"
| "b64_bytes (a # b # c # rest) =
     [b64_char (a div 4), b64_char ((a mod 4) * 16 + b div 16),
      b64_char ((b mod 16) * 4 + c div 64), b64_char (c mod 64)] @ b64_bytes rest"

definition base64 :: "string \<Rightarrow> string" where
  "base64 s = b64_bytes (map of_char s)"

subsection \<open>\<open>retrieve\<close>\<close>

definition is_mock_cid :: "string \<Rightarrow> bool" where
  "is_mock_cid c \<longleftrightarrow> js_includes c ''Mock'' \<or> c = ''QmYwAPJzv5CZsnAMockCID12345''"

text \<open>
  \<open>gateway\<close> maps a URL to the outcome of the GET: the bytes of the answer or the failure.
  A mock address is refused before any request is made.
\<close>

definition retrieve ::
  "ipfs_config \<Rightarrow> (string \<Rightarrow> axios_error + string) \<Rightarrow> string \<Rightarrow> (js_error + string) \<times> effect list" where
  "retrieve cfg gateway c =
     (if is_mock_cid c then (Inl (Error ''Mock CID detected - skipping''), [])
      else (case gateway (IPFS_GATEWAY_URL cfg @ ''/'' @ c) of
              Inr bytes \<Rightarrow> (Inr (base64 bytes), [HttpGet (IPFS_GATEWAY_URL cfg @ ''/'' @ c)])
            | Inl e \<Rightarrow> (Inl (Error (''IPFS retrieval failed: '' @ ax_message e)),
                        [HttpGet (IPFS_GATEWAY_URL cfg @ ''/'' @ c)])))"


section \<open>The aggregation service (CoprocessorService)\<close>

record coproc_config =
  COPROCESSOR_URL :: string
  HMAC_SECRET :: string

record CoprocessorRequest =
  req_ciphertexts :: "string list"
  req_op :: string
  req_targetType :: string
  req_outputFormat :: "string option"

record CoprocessorResponse =
  resultCiphertext :: string
  res_proof :: "string option"
  coprocVersion :: string
  meta_op :: string
  meta_itemsCount :: nat

record AggregateResult =
  outputCiphertext :: string
  agg_op :: string
  agg_itemsCount :: nat
  coprocessorVersion :: string

text \<open>
  What lies outside the process: the gateway of the content store, the computation engine
  (URL, payload and signature header to the outcome of the POST), the keyed hash that
  signs a payload, and the random draws, \<open>random1000 i\<close> being the value of
  \<open>Math.floor(Math.random() * 1000)\<close> at the \<open>i\<close>-th draw of a call.
\<close>

record world =
  gateway :: "string \<Rightarrow> axios_error + string"
  engine :: "string \<Rightarrow> CoprocessorRequest \<Rightarrow> string \<Rightarrow> axios_error + CoprocessorResponse"
  hmac_sha256 :: "string \<Rightarrow> CoprocessorRequest \<Rightarrow> string"
  random1000 :: "nat \<Rightarrow> nat"

text \<open>A JavaScript number as the mock computes it: an integer, or what an empty list gives.\<close>

datatype jsnum = Num int | NegInfinity | PosInfinity | NaN

definition js_max :: "int list \<Rightarrow> jsnum" where
  "js_max xs = (case xs of [] \<Rightarrow> NegInfinity | x # rest \<Rightarrow> Num (foldl max x rest))"

definition js_min :: "int list \<Rightarrow> jsnum" where
  "js_min xs = (case xs of [] \<Rightarrow> PosInfinity | x # rest \<Rightarrow> Num (foldl min x rest))"

text \<open>\<open>JSON.stringify({ value: result, type: "euint64" })\<close>.\<close>

definition stringify_result :: "jsnum \<Rightarrow> string" where
  \<open>stringify_result r =
     ''{"value":'' @ (case r of Num i \<Rightarrow> show_int i | _ \<Rightarrow> ''null'') @ '',"type":"euint64"}''\<close>

definition callMockCoprocessor :: "(nat \<Rightarrow> nat) \<Rightarrow> string list \<Rightarrow> string \<Rightarrow> CoprocessorResponse" where
  "callMockCoprocessor rnd cts operation =
     (let mockAmounts = map (\<lambda>i. int (rnd i) + 10) [0 ..< length cts];
          result =
            (if operation = ''sum'' then Num (sum_list mockAmounts)
             else if operation = ''max'' then js_max mockAmounts
             else if operation = ''min'' then js_min mockAmounts
             else if operation = ''avg'' then
               (if mockAmounts = [] then NaN
                else Num (sum_list mockAmounts div int (length mockAmounts)))
             else Num (sum_list mockAmounts))
      in \<lparr>resultCiphertext = base64 (stringify_result result),
          res_proof = None,
          coprocVersion = ''v0.9-mock'',
          meta_op = operation,
          meta_itemsCount = length cts\<rparr>)"

text \<open>
  \<open>callRealCoprocessor\<close>: no request when the URL is unset; otherwise one POST, and the
  mock whenever that POST fails. It never throws.
\<close>

definition callRealCoprocessor ::
  "coproc_config \<Rightarrow> world \<Rightarrow> string list \<Rightarrow> string \<Rightarrow> CoprocessorResponse \<times> effect list" where
  "callRealCoprocessor cfg w cts operation =
     (if COPROCESSOR_URL cfg = [] then (callMockCoprocessor (random1000 w) cts operation, [])
      else
        (let payload = \<lparr>req_ciphertexts = cts, req_op = operation,
                        req_targetType = ''euint64'', req_outputFormat = Some ''ciphertext''\<rparr>;
             signature = hmac_sha256 w (HMAC_SECRET cfg) payload
         in case engine w (COPROCESSOR_URL cfg) payload signature of
              Inr response \<Rightarrow> (response, [HttpPost (COPROCESSOR_URL cfg)])
            | Inl _ \<Rightarrow> (callMockCoprocessor (random1000 w) cts operation,
                        [HttpPost (COPROCESSOR_URL cfg)])))"

text \<open>
  \<open>Promise.all\<close> over the fetches, all of which are started. It rejects with the first
  rejection to arrive: a mock address is refused before its function first waits, so such
  a rejection precedes every failure of the network; among the failures of the network
  the order of the list stands for the order of arrival.
\<close>

fun first_failure :: "(js_error + string) list \<Rightarrow> js_error option" where
  "first_failure [] = None"
| "first_failure (Inl e # rest) = Some e"
| "first_failure (Inr _ # rest) = first_failure rest"

fun successes :: "(js_error + string) list \<Rightarrow> string list" where
  "successes [] = []"
| "successes (Inl e # rest) = successes rest"
| "successes (Inr v # rest) = v # successes rest"

definition promise_all_retrieve ::
  "ipfs_config \<Rightarrow> world \<Rightarrow> string list \<Rightarrow> (js_error + string list) \<times> effect list" where
  "promise_all_retrieve icfg w cids =
     (let fetched = map (retrieve icfg (gateway w)) cids;
          effects = concat (map snd fetched)
      in if list_ex is_mock_cid cids then (Inl (Error ''Mock CID detected - skipping''), effects)
         else (case first_failure (map fst fetched) of
                 Some e \<Rightarrow> (Inl e, effects)
               | None \<Rightarrow> (Inr (successes (map fst fetched)), effects)))"

definition aggregate ::
  "coproc_config \<Rightarrow> ipfs_config \<Rightarrow> world \<Rightarrow> string list \<Rightarrow> string
   \<Rightarrow> (js_error + AggregateResult) \<times> effect list" where
  "aggregate cfg icfg w cids operation =
     (case promise_all_retrieve icfg w cids of
        (Inl (Error m), gets) \<Rightarrow> (Inl (Error (''Coprocessor aggregation failed: '' @ m)), gets)
      | (Inr cts, gets) \<Rightarrow>
          (case callRealCoprocessor cfg w cts operation of
             (response, posts) \<Rightarrow>
               (Inr \<lparr>outputCiphertext = resultCiphertext response,
                     agg_op = operation,
                     agg_itemsCount = length cids,
                     coprocessorVersion = coprocVersion response\<rparr>,
                gets @ posts)))"

text \<open>A request to the computation engine among the effects of a call.\<close>

fun is_post :: "effect \<Rightarrow> bool" where
  "is_post (HttpPost u) = True"
| "is_post (HttpGet u) = False"

text \<open>The payload \<open>callRealCoprocessor\<close> sends for given ciphertexts and operation.\<close>

definition engine_payload :: "string list \<Rightarrow> string \<Rightarrow> CoprocessorRequest" where
  "engine_payload cts operation =
     \<lparr>req_ciphertexts = cts, req_op = operation,
      req_targetType = ''euint64'', req_outputFormat = Some ''ciphertext''\<rparr>"

text \<open>The ciphertexts an \<open>aggregate\<close> call hands to the engine when every fetch succeeds.\<close>

definition fetched_ciphertexts :: "ipfs_config \<Rightarrow> world \<Rightarrow> string list \<Rightarrow> string list" where
  "fetched_ciphertexts icfg w cids = successes (map (\<lambda>c. fst (retrieve icfg (gateway w) c)) cids)"

text \<open>
  Configurations and a world for the examples below: the gateway has every address but
  \<open>QmGone\<close>, and the engine refuses the connection.
\<close>

definition cfg_unset :: coproc_config where
  "cfg_unset = \<lparr>COPROCESSOR_URL = [], HMAC_SECRET = ''demo-secret''\<rparr>"

definition cfg_set :: coproc_config where
  "cfg_set = \<lparr>COPROCESSOR_URL = ''http://engine.example/aggregate'', HMAC_SECRET = ''demo-secret''\<rparr>"

definition icfg_nokeys :: ipfs_config where
  "icfg_nokeys = \<lparr>PINATA_API_KEY = [], PINATA_SECRET_API_KEY = [],
                   IPFS_GATEWAY_URL = ''https://gateway.pinata.cloud/ipfs''\<rparr>"

definition icfg_keys :: ipfs_config where
  "icfg_keys = \<lparr>PINATA_API_KEY = ''key'', PINATA_SECRET_API_KEY = ''secret'',
                 IPFS_GATEWAY_URL = ''https://gateway.pinata.cloud/ipfs''\<rparr>"

definition refused :: axios_error where
  "refused = \<lparr>ax_message = ''connect ECONNREFUSED'', ax_response = None\<rparr>"

definition world_down :: world where
  "world_down =
     \<lparr>gateway = (\<lambda>u. if u = ''https://gateway.pinata.cloud/ipfs/QmGone''
                      then Inl \<lparr>ax_message = ''Request failed with status code 404'',
                                ax_response = Some (404, [])\<rparr>
                      else Inr ''abc''),
      engine = (\<lambda>_ _ _. Inl refused),
      hmac_sha256 = (\<lambda>_ _. []),
      random1000 = (\<lambda>_. 5)\<rparr>"


section \<open>The HTTP routes\<close>

text \<open>
  A JSON value; \<open>JDate\<close> is a date, which \<open>res.json\<close> prints as text. A response is the
  status code and the body.
\<close>

datatype json =
    JNull | JBool bool | JNum int | JStr string | JDate nat
  | JArr "json list" | JObj "(string \<times> json) list"

record response =
  code :: nat
  body :: json

definition failure :: "nat \<Rightarrow> string \<Rightarrow> response" where
  "failure c msg = \<lparr>code = c, body = JObj [(''success'', JBool False), (''error'', JStr msg)]\<rparr>"

definition nullable :: "string option \<Rightarrow> json" where
  "nullable v = (case v of None \<Rightarrow> JNull | Some s \<Rightarrow> JStr s)"

subsection \<open>POST /aggregate\<close>

text \<open>
  The field \<open>cids\<close> of the request body: absent, a value that is not an array, or an array
  of strings, as the route documents it. The field \<open>op\<close> is absent or any JSON value.
\<close>

datatype cids_field = CidsAbsent | CidsNotArray json | CidsArray "string list"

record aggregate_body =
  body_cids :: cids_field
  body_op :: "json option"

definition post_aggregate ::
  "coproc_config \<Rightarrow> ipfs_config \<Rightarrow> world \<Rightarrow> aggregate_body \<Rightarrow> response \<times> effect list" where
  "post_aggregate cfg icfg w b =
     (let operation = (case body_op b of None \<Rightarrow> JStr ''sum'' | Some v \<Rightarrow> v)
      in case body_cids b of
           CidsArray cs \<Rightarrow>
             if cs = [] then (failure 400 ''cids array is required and must not be empty'', [])
             else
               (case operation of
                  JStr s \<Rightarrow>
                    if s \<in> set [''sum'', ''max'', ''min'', ''avg''] then
                      (case aggregate cfg icfg w cs s of
                         (Inr r, effects) \<Rightarrow>
                           (\<lparr>code = 200,
                             body = JObj [(''success'', JBool True),
                                          (''outputCiphertext'', JStr (outputCiphertext r)),
                                          (''meta'', JObj [(''op'', JStr (agg_op r)),
                                                           (''itemsCount'', JNum (int (agg_itemsCount r))),
                                                           (''coprocessorVersion'',
                                                              JStr (coprocessorVersion r))])]\<rparr>,
                            effects)
                       | (Inl (Error m), effects) \<Rightarrow> (failure 500 m, effects))
                    else (failure 400 ''Invalid operation. Must be: sum, max, min, avg'', [])
                | _ \<Rightarrow> (failure 400 ''Invalid operation. Must be: sum, max, min, avg'', []))
         | _ \<Rightarrow> (failure 400 ''cids array is required and must not be empty'', []))"

subsection \<open>GET /api/records\<close>









definition expense_json :: "expense \<Rightarrow> json" where
  "expense_json r =
     JObj [(''id'', JNum (int (row_id r))),
           (''userAddress'', JStr (userAddress r)),
           (''cid'', JStr (cid r)),
           (''submissionHash'', JStr (submissionHash r)),
           (''txHash'', JStr (txHash r)),
           (''blockNumber'', nullable (blockNumber r)),
           (''timestamp'', JDate (timestamp r)),
           (''category'', nullable (category r)),
           (''note'', nullable (note' r)),
           (''status'', JStr (status r)),
           (''createdAt'', JDate (createdAt r)),
           (''updatedAt'', JDate (updatedAt r))]"




subsection \<open>GET /api/records/:cid and GET /api/records/proof/:cid\<close>

definition getRecord :: "db \<Rightarrow> string \<Rightarrow> response" where
  "getRecord d c =
     (case findUnique d c of
        None \<Rightarrow> failure 404 ''Record not found''
      | Some r \<Rightarrow> \<lparr>code = 200, body = JObj [(''success'', JBool True), (''record'', expense_json r)]\<rparr>)"

definition proof_json :: "expense \<Rightarrow> json" where
  "proof_json r =
     JObj [(''cid'', JStr (cid r)),
           (''submissionHash'', JStr (submissionHash r)),
           (''txHash'', JStr (txHash r)),
           (''blockNumber'', nullable (blockNumber r)),
           (''timestamp'', JDate (timestamp r)),
           (''userAddress'', JStr (userAddress r)),
           (''category'', nullable (category r))]"

definition getProof :: "db \<Rightarrow> string \<Rightarrow> response" where
  "getProof d c =
     (case findUnique d c of
        None \<Rightarrow> failure 404 ''Proof not found''
      | Some r \<Rightarrow>
          \<lparr>code = 200,
           body = JObj [(''success'', JBool True), (''proof'', proof_json r),
                        (''encrypted'', JBool True)]\<rparr>)"

text \<open>The keys of a JSON object, and the keys that occur anywhere inside a JSON value.\<close>

fun keys :: "json \<Rightarrow> string list" where
  "keys (JObj kvs) = map fst kvs"
| "keys _ = []"

fun all_keys :: "json \<Rightarrow> string list" where
  "all_keys (JObj kvs) = concat (map (\<lambda>(k, v). k # all_keys v) kvs)"
| "all_keys (JArr vs) = concat (map all_keys vs)"
| "all_keys _ = []"











section \<open>Properties of the ledger\<close>

lemma run_txs_Nil [simp]: "run_txs [] ch = ch"
  by (simp add: run_txs_def)

lemma run_txs_Cons [simp]: "run_txs (t # ts) ch = run_txs ts (transact t ch)"
  by (simp add: run_txs_def)

lemma run_txs_snoc: "run_txs (ts @ [t]) ch = transact t (run_txs ts ch)"
  by (simp add: run_txs_def)

text \<open>
  C1. A fingerprint \<open>f\<close> that the ledger has not recorded yet is attested twice, by any
  callers and with any content addresses and metadata: the first call succeeds and records
  \<open>f\<close>; the second reverts with "Already attested"; \<open>isAttested f\<close> holds after the
  first call and after the rejected second one, and the rejected transaction leaves the
  chain (contract state and logs) as it was.
\<close>

theorem attest_twice_rejected:
  assumes "\<not> isAttested st f"
  shows "\<exists>st1 ev.
           attestExpense c1 t1 f cid1 m1 st = Inr (st1, ev)
         \<and> isAttested st1 f
         \<and> attestExpense c2 t2 f cid2 m2 st1 = Inl (Revert ''Already attested'')
         \<and> transact \<lparr>tx_sender = c1, tx_timestamp = t1, tx_call = AttestExpense f cid1 m1\<rparr>
              \<lparr>contract = st, logs = ls\<rparr> = \<lparr>contract = st1, logs = ls @ [ev]\<rparr>
         \<and> transact \<lparr>tx_sender = c2, tx_timestamp = t2, tx_call = AttestExpense f cid2 m2\<rparr>
              \<lparr>contract = st1, logs = ls @ [ev]\<rparr> = \<lparr>contract = st1, logs = ls @ [ev]\<rparr>
         \<and> isAttested st1 f"
  using assms by (simp add: attestExpense_def isAttested_def transact_def)

theorem attest_twice_rejected_witness:
  "\<not> isAttested deployed 7 \<and>
   (\<exists>st1 ev.
      attestExpense 1 100 7 ''QmA'' [] deployed = Inr (st1, ev)
    \<and> isAttested st1 7
    \<and> attestExpense 2 101 7 ''QmB'' [] st1 = Inl (Revert ''Already attested'')
    \<and> transact \<lparr>tx_sender = 1, tx_timestamp = 100, tx_call = AttestExpense 7 ''QmA'' []\<rparr>
         \<lparr>contract = deployed, logs = []\<rparr> = \<lparr>contract = st1, logs = [] @ [ev]\<rparr>
    \<and> transact \<lparr>tx_sender = 2, tx_timestamp = 101, tx_call = AttestExpense 7 ''QmB'' []\<rparr>
         \<lparr>contract = st1, logs = [] @ [ev]\<rparr> = \<lparr>contract = st1, logs = [] @ [ev]\<rparr>
    \<and> isAttested st1 7)"
proof -
  have h: "\<not> isAttested deployed 7"
    by (simp add: isAttested_def deployed_def)
  show ?thesis
    using h attest_twice_rejected [OF h, of 1 100 "''QmA''" "[]" 2 101 "''QmB''" "[]" "[]"]
    by blast
qed


lemma transact_userCids_prefix:
  "prefix (getUserCids (contract ch) u) (getUserCids (contract (transact t ch)) u)"
  by (cases "tx_call t")
     (auto simp: transact_def attestExpense_def registerPublicKey_def getUserCids_def)

lemma run_txs_userCids_prefix:
  "prefix (getUserCids (contract ch) u) (getUserCids (contract (run_txs ts ch)) u)"
proof (induction ts arbitrary: ch)
  case Nil
  show ?case by simp
next
  case (Cons t ts)
  have "prefix (getUserCids (contract ch) u) (getUserCids (contract (transact t ch)) u)"
    by (rule transact_userCids_prefix)
  also have "prefix \<dots> (getUserCids (contract (run_txs ts (transact t ch))) u)"
    by (rule Cons.IH)
  finally show ?case by simp
qed

text \<open>
  C10. In every state \<open>getUserAttestationCount u\<close> is the length of \<open>getUserCids u\<close>,
  also after any sequence of transactions. A successful \<open>attestExpense\<close> by caller \<open>c\<close>
  appends exactly its content address at the end of \<open>c\<close>'s list and leaves the list of every
  other user as it was. Whatever transactions run (attestations, key registrations,
  reverted calls), the list a user had before is a prefix of the list the user has after:
  nothing is removed or reordered.
\<close>

theorem user_cids_append_only:
  "getUserAttestationCount st u = length (getUserCids st u)
   \<and> getUserAttestationCount (contract (run_txs ts ch)) u
       = length (getUserCids (contract (run_txs ts ch)) u)
   \<and> (attestExpense c t h ca m st = Inr (st', ev) \<longrightarrow>
        getUserCids st' c = getUserCids st c @ [ca]
        \<and> (\<forall>v. v \<noteq> c \<longrightarrow> getUserCids st' v = getUserCids st v)
        \<and> getUserAttestationCount st' c = Suc (getUserAttestationCount st c))
   \<and> prefix (getUserCids (contract ch) u) (getUserCids (contract (transact x ch)) u)
   \<and> prefix (getUserCids (contract ch) u) (getUserCids (contract (run_txs ts ch)) u)"
proof -
  have "attestExpense c t h ca m st = Inr (st', ev) \<longrightarrow>
        getUserCids st' c = getUserCids st c @ [ca]
        \<and> (\<forall>v. v \<noteq> c \<longrightarrow> getUserCids st' v = getUserCids st v)
        \<and> getUserAttestationCount st' c = Suc (getUserAttestationCount st c)"
    by (auto simp: attestExpense_def getUserCids_def getUserAttestationCount_def
             split: if_splits)
  then show ?thesis
    using transact_userCids_prefix [of ch u x] run_txs_userCids_prefix [of ch u ts]
    by (simp add: getUserAttestationCount_def getUserCids_def)
qed

theorem user_cids_append_only_witness:
  "\<exists>st' ev. attestExpense 1 100 7 ''QmA'' [] deployed = Inr (st', ev)
     \<and> getUserCids st' 1 = getUserCids deployed 1 @ [''QmA'']
     \<and> (\<forall>v. v \<noteq> 1 \<longrightarrow> getUserCids st' v = getUserCids deployed v)
     \<and> getUserAttestationCount st' 1 = Suc (getUserAttestationCount deployed 1)"
proof -
  obtain st' ev where a: "attestExpense 1 100 7 ''QmA'' [] deployed = Inr (st', ev)"
    by (simp add: attestExpense_def deployed_def)
  show ?thesis
    using a user_cids_append_only [of deployed 1 "[]" genesis 1 100 7 "''QmA''" "[]" st' ev]
    by blast
qed

section \<open>Properties of the indexer\<close>

subsection \<open>The rendering of a fingerprint is one-to-one\<close>




subsection \<open>The ledger emits every fingerprint once\<close>








subsection \<open>One row for each content address\<close>


lemma findUnique_Some: "findUnique d c = Some r \<Longrightarrow> r \<in> set (rows d) \<and> cid r = c"
  by (auto simp: findUnique_def find_Some_iff)








subsection \<open>A second delivery of an event\<close>




lemma confirm_where_twice: "confirm_where c now (confirm_where c now r) = confirm_where c now r"
  by (simp add: confirm_where_def)
















subsection \<open>Replay of the ledger's events\<close>















subsection \<open>Delivery for an existing row, and the course of a status\<close>







section \<open>Properties of the content store client and the aggregation service\<close>

lemma js_includes_prefix: "prefix t s \<Longrightarrow> js_includes s t"
  by (cases s) auto

lemma js_includes_self: "js_includes (t @ b) t"
  by (rule js_includes_prefix) simp

lemma js_includes_mid: "js_includes (a @ t @ b) t"
  by (induction a) (simp_all add: js_includes_self)

lemma getMockCid_is_mock: "is_mock_cid (getMockCid now rnd)"
proof -
  have "getMockCid now rnd = ''Qm'' @ ''Mock'' @ (''Demo'' @ show_nat now @ rnd)"
    by (simp add: getMockCid_def del: show_nat.simps)
  then show ?thesis
    unfolding is_mock_cid_def by (simp only: js_includes_mid simp_thms)
qed

lemma retrieve_mock:
  "is_mock_cid c \<Longrightarrow> retrieve icfg gw c = (Inl (Error ''Mock CID detected - skipping''), [])"
  by (simp add: retrieve_def)

lemma retrieve_effects: "e \<in> set (snd (retrieve icfg gw c)) \<Longrightarrow> \<not> is_post e"
  by (auto simp: retrieve_def split: if_splits sum.splits)

lemma first_failure_Some: "first_failure xs = Some e \<Longrightarrow> Inl e \<in> set xs"
  by (induction xs rule: first_failure.induct) auto

lemma first_failure_None: "first_failure xs = None \<longleftrightarrow> (\<forall>x \<in> set xs. \<exists>v. x = Inr v)"
  by (induction xs rule: first_failure.induct) auto

lemma promise_all_effects:
  "e \<in> set (snd (promise_all_retrieve icfg w cids)) \<Longrightarrow> \<not> is_post e"
  by (auto simp: promise_all_retrieve_def Let_def split: if_splits option.splits
           dest: retrieve_effects)

lemma promise_all_fails:
  assumes "c \<in> set cids" and "fst (retrieve icfg (gateway w) c) = Inl e"
  shows "\<exists>m. fst (promise_all_retrieve icfg w cids) = Inl (Error m)
           \<and> (\<exists>c' \<in> set cids. fst (retrieve icfg (gateway w) c') = Inl (Error m))"
proof (cases "list_ex is_mock_cid cids")
  case True
  then obtain c' where "c' \<in> set cids" "is_mock_cid c'" by (auto simp: list_ex_iff)
  then have "fst (retrieve icfg (gateway w) c') = Inl (Error ''Mock CID detected - skipping'')"
    by (simp add: retrieve_mock)
  with True \<open>c' \<in> set cids\<close> show ?thesis
    by (auto simp: promise_all_retrieve_def Let_def)
next
  case False
  let ?rs = "map fst (map (retrieve icfg (gateway w)) cids)"
  from assms have "Inl e \<in> set ?rs" by force
  then have "first_failure ?rs \<noteq> None" unfolding first_failure_None by blast
  then obtain e' where f: "first_failure ?rs = Some e'" by blast
  obtain m where m: "e' = Error m" by (cases e')
  from first_failure_Some [OF f] obtain c' where "c' \<in> set cids"
    "fst (retrieve icfg (gateway w) c') = Inl e'" by auto
  with False f m show ?thesis
    by (auto simp: promise_all_retrieve_def Let_def)
qed

lemma promise_all_mock:
  assumes "c \<in> set cids" and "is_mock_cid c"
  shows "fst (promise_all_retrieve icfg w cids) = Inl (Error ''Mock CID detected - skipping'')"
proof -
  from assms have "list_ex is_mock_cid cids" by (auto simp: list_ex_iff)
  then show ?thesis by (simp add: promise_all_retrieve_def Let_def)
qed

lemma aggregate_Inl:
  "fst (promise_all_retrieve icfg w cids) = Inl (Error m) \<Longrightarrow>
   aggregate cfg icfg w cids operation =
     (Inl (Error (''Coprocessor aggregation failed: '' @ m)), snd (promise_all_retrieve icfg w cids))"
  by (cases "promise_all_retrieve icfg w cids") (simp add: aggregate_def)

lemma promise_all_succeeds:
  assumes "\<forall>c \<in> set cids. \<exists>v. fst (retrieve icfg (gateway w) c) = Inr v"
  shows "fst (promise_all_retrieve icfg w cids) = Inr (fetched_ciphertexts icfg w cids)"
proof -
  have nm: "\<not> list_ex is_mock_cid cids"
  proof
    assume "list_ex is_mock_cid cids"
    then obtain c where "c \<in> set cids" "is_mock_cid c" by (auto simp: list_ex_iff)
    with assms show False by (auto simp: retrieve_mock)
  qed
  let ?rs = "map fst (map (retrieve icfg (gateway w)) cids)"
  from assms have "\<forall>x \<in> set ?rs. \<exists>v. x = Inr v" by auto
  then have "first_failure ?rs = None" by (simp only: first_failure_None)
  with nm show ?thesis
    by (simp add: promise_all_retrieve_def Let_def fetched_ciphertexts_def comp_def)
qed

subsection \<open>A failed fetch fails the batch\<close>

lemma aggregate_effects_on_failure:
  "fst (promise_all_retrieve icfg w cids) = Inl (Error m) \<Longrightarrow>
   \<forall>x \<in> set (snd (aggregate cfg icfg w cids operation)). \<not> is_post x"
  by (simp add: aggregate_Inl promise_all_effects)

lemma post_aggregate_failure:
  assumes "fst (promise_all_retrieve icfg w cids) = Inl (Error m)"
    and "cids \<noteq> []" and "operation \<in> set [''sum'', ''max'', ''min'', ''avg'']"
  shows "fst (post_aggregate cfg icfg w \<lparr>body_cids = CidsArray cids, body_op = Some (JStr operation)\<rparr>)
         = failure 500 (''Coprocessor aggregation failed: '' @ m)"
  using assms(2,3) by (simp add: post_aggregate_def aggregate_Inl [OF assms(1)])

lemma not_mock_QmGone: "\<not> is_mock_cid ''QmGone''"
  by (simp add: is_mock_cid_def)

lemma not_mock_QmX: "\<not> is_mock_cid ''QmX''"
  by (simp add: is_mock_cid_def)

lemma retrieve_QmGone:
  "fst (retrieve icfg_nokeys (gateway world_down) ''QmGone'')
   = Inl (Error ''IPFS retrieval failed: Request failed with status code 404'')"
  by (simp add: retrieve_def not_mock_QmGone icfg_nokeys_def world_down_def)

lemma retrieve_QmX:
  "fst (retrieve icfg_nokeys (gateway world_down) ''QmX'') = Inr (base64 ''abc'')"
  by (simp add: retrieve_def not_mock_QmX icfg_nokeys_def world_down_def)

text \<open>
  C4. A batch in which the fetch of some content address fails: \<open>aggregate\<close> throws the
  error "Coprocessor aggregation failed: " followed by the message of a failed fetch of
  the batch; it returns no result, sends nothing to the engine, and the route answers 500
  with that message.
\<close>

theorem aggregate_fails_whole_batch:
  assumes "c \<in> set cids" and "fst (retrieve icfg (gateway w) c) = Inl e"
  shows "\<exists>m. aggregate cfg icfg w cids operation =
                (Inl (Error (''Coprocessor aggregation failed: '' @ m)),
                 snd (promise_all_retrieve icfg w cids))
           \<and> (\<exists>c' \<in> set cids. fst (retrieve icfg (gateway w) c') = Inl (Error m))
           \<and> (\<forall>x \<in> set (snd (aggregate cfg icfg w cids operation)). \<not> is_post x)
           \<and> (operation \<in> set [''sum'', ''max'', ''min'', ''avg''] \<longrightarrow>
                fst (post_aggregate cfg icfg w
                       \<lparr>body_cids = CidsArray cids, body_op = Some (JStr operation)\<rparr>)
                = failure 500 (''Coprocessor aggregation failed: '' @ m))"
proof -
  from promise_all_fails [OF assms] obtain m where
    m: "fst (promise_all_retrieve icfg w cids) = Inl (Error m)"
    and c': "\<exists>c' \<in> set cids. fst (retrieve icfg (gateway w) c') = Inl (Error m)" by blast
  from assms(1) have ne: "cids \<noteq> []" by auto
  show ?thesis
    using aggregate_Inl [OF m] c' aggregate_effects_on_failure [OF m]
      post_aggregate_failure [OF m ne] by blast
qed

theorem aggregate_fails_whole_batch_witness:
  "''QmGone'' \<in> set [''QmX'', ''QmGone'']
   \<and> fst (retrieve icfg_nokeys (gateway world_down) ''QmGone'')
       = Inl (Error ''IPFS retrieval failed: Request failed with status code 404'')
   \<and> (\<exists>m. fst (aggregate cfg_set icfg_nokeys world_down [''QmX'', ''QmGone''] ''sum'')
            = Inl (Error (''Coprocessor aggregation failed: '' @ m))
          \<and> (\<forall>x \<in> set (snd (aggregate cfg_set icfg_nokeys world_down [''QmX'', ''QmGone''] ''sum'')).
                \<not> is_post x))"
proof -
  have i: "''QmGone'' \<in> set [''QmX'', ''QmGone'']" by simp
  from aggregate_fails_whole_batch [OF i retrieve_QmGone, of cfg_set "''sum''"]
  obtain m where
    "aggregate cfg_set icfg_nokeys world_down [''QmX'', ''QmGone''] ''sum'' =
       (Inl (Error (''Coprocessor aggregation failed: '' @ m)),
        snd (promise_all_retrieve icfg_nokeys world_down [''QmX'', ''QmGone'']))"
    "\<forall>x \<in> set (snd (aggregate cfg_set icfg_nokeys world_down [''QmX'', ''QmGone''] ''sum'')).
        \<not> is_post x"
    by blast
  then have "\<exists>m. fst (aggregate cfg_set icfg_nokeys world_down [''QmX'', ''QmGone''] ''sum'')
            = Inl (Error (''Coprocessor aggregation failed: '' @ m))
          \<and> (\<forall>x \<in> set (snd (aggregate cfg_set icfg_nokeys world_down [''QmX'', ''QmGone''] ''sum'')).
                \<not> is_post x)"
    by (metis fst_conv)
  with i retrieve_QmGone show ?thesis by (intro conjI)
qed

subsection \<open>The engine is unset or fails\<close>

lemma callReal_unset:
  "COPROCESSOR_URL cfg = [] \<Longrightarrow>
   callRealCoprocessor cfg w cts operation = (callMockCoprocessor (random1000 w) cts operation, [])"
  by (simp add: callRealCoprocessor_def)

lemma callReal_failed:
  "COPROCESSOR_URL cfg \<noteq> [] \<Longrightarrow>
   engine w (COPROCESSOR_URL cfg) (engine_payload cts operation)
     (hmac_sha256 w (HMAC_SECRET cfg) (engine_payload cts operation)) = Inl e \<Longrightarrow>
   callRealCoprocessor cfg w cts operation =
     (callMockCoprocessor (random1000 w) cts operation, [HttpPost (COPROCESSOR_URL cfg)])"
  by (simp add: callRealCoprocessor_def engine_payload_def Let_def)

lemma mock_version: "coprocVersion (callMockCoprocessor rnd cts operation) = ''v0.9-mock''"
  by (simp add: callMockCoprocessor_def Let_def)

lemma aggregate_Inr:
  "fst (promise_all_retrieve icfg w cids) = Inr cts \<Longrightarrow>
   aggregate cfg icfg w cids operation =
     (Inr \<lparr>outputCiphertext = resultCiphertext (fst (callRealCoprocessor cfg w cts operation)),
           agg_op = operation, agg_itemsCount = length cids,
           coprocessorVersion = coprocVersion (fst (callRealCoprocessor cfg w cts operation))\<rparr>,
      snd (promise_all_retrieve icfg w cids) @ snd (callRealCoprocessor cfg w cts operation))"
  by (cases "promise_all_retrieve icfg w cids") (simp add: aggregate_def split: prod.splits)

lemma no_posts_in_fetches: "filter is_post (snd (promise_all_retrieve icfg w cids)) = []"
  using promise_all_effects [of _ icfg w cids] by (simp add: filter_empty_conv)

lemma aggregate_fallback:
  assumes ok: "\<forall>c \<in> set cids. \<exists>v. fst (retrieve icfg (gateway w) c) = Inr v"
    and down: "COPROCESSOR_URL cfg = []
       \<or> (\<exists>e. engine w (COPROCESSOR_URL cfg)
                 (engine_payload (fetched_ciphertexts icfg w cids) operation)
                 (hmac_sha256 w (HMAC_SECRET cfg)
                    (engine_payload (fetched_ciphertexts icfg w cids) operation)) = Inl e)"
  shows "fst (aggregate cfg icfg w cids operation) =
           Inr \<lparr>outputCiphertext =
                  resultCiphertext (callMockCoprocessor (random1000 w)
                                      (fetched_ciphertexts icfg w cids) operation),
                agg_op = operation, agg_itemsCount = length cids,
                coprocessorVersion = ''v0.9-mock''\<rparr>
       \<and> length (filter is_post (snd (aggregate cfg icfg w cids operation)))
           = (if COPROCESSOR_URL cfg = [] then 0 else 1)"
proof -
  let ?cts = "fetched_ciphertexts icfg w cids"
  note a = aggregate_Inr [OF promise_all_succeeds [OF ok], of cfg operation]
  show ?thesis
  proof (cases "COPROCESSOR_URL cfg = []")
    case True
    show ?thesis
      unfolding a callReal_unset [OF True] using True
      by (simp add: mock_version no_posts_in_fetches)
  next
    case False
    with down obtain e where
      "engine w (COPROCESSOR_URL cfg) (engine_payload ?cts operation)
         (hmac_sha256 w (HMAC_SECRET cfg) (engine_payload ?cts operation)) = Inl e" by blast
    note r = callReal_failed [OF False this]
    show ?thesis
      unfolding a r using False
      by (simp add: mock_version no_posts_in_fetches)
  qed
qed

lemma fetches_QmX_ok:
  "\<forall>c \<in> set [''QmX'']. \<exists>v. fst (retrieve icfg_nokeys (gateway world_down) c) = Inr v"
  by (simp add: retrieve_QmX)

text \<open>
  C8 (amended). Every fetch of the batch succeeds, and the engine URL is unset or the call
  to the engine fails. Then \<open>aggregate\<close> throws nothing: it returns the result of the local
  mock (version "v0.9-mock") for the fetched ciphertexts. It sends no request to the
  engine when the URL is unset and exactly one, without a retry, when the call fails.
\<close>

theorem engine_down_uses_mock:
  assumes "\<forall>c \<in> set cids. \<exists>v. fst (retrieve icfg (gateway w) c) = Inr v"
    and "COPROCESSOR_URL cfg = []
       \<or> (\<exists>e. engine w (COPROCESSOR_URL cfg)
                 (engine_payload (fetched_ciphertexts icfg w cids) operation)
                 (hmac_sha256 w (HMAC_SECRET cfg)
                    (engine_payload (fetched_ciphertexts icfg w cids) operation)) = Inl e)"
  shows "fst (aggregate cfg icfg w cids operation) =
           Inr \<lparr>outputCiphertext =
                  resultCiphertext (callMockCoprocessor (random1000 w)
                                      (fetched_ciphertexts icfg w cids) operation),
                agg_op = operation, agg_itemsCount = length cids,
                coprocessorVersion = ''v0.9-mock''\<rparr>
       \<and> length (filter is_post (snd (aggregate cfg icfg w cids operation)))
           = (if COPROCESSOR_URL cfg = [] then 0 else 1)"
  using assms by (rule aggregate_fallback)

theorem engine_down_uses_mock_witness:
  "fst (retrieve icfg_nokeys (gateway world_down) ''QmX'') = Inr (base64 ''abc'')
   \<and> COPROCESSOR_URL cfg_set \<noteq> []
   \<and> engine world_down (COPROCESSOR_URL cfg_set)
        (engine_payload (fetched_ciphertexts icfg_nokeys world_down [''QmX'']) ''sum'')
        (hmac_sha256 world_down (HMAC_SECRET cfg_set)
           (engine_payload (fetched_ciphertexts icfg_nokeys world_down [''QmX'']) ''sum'')) = Inl refused
   \<and> coprocessorVersion (projr (fst (aggregate cfg_set icfg_nokeys world_down [''QmX''] ''sum'')))
       = ''v0.9-mock''
   \<and> length (filter is_post (snd (aggregate cfg_set icfg_nokeys world_down [''QmX''] ''sum''))) = 1"
proof -
  have u: "COPROCESSOR_URL cfg_set \<noteq> []" by (simp add: cfg_set_def)
  have e: "engine world_down (COPROCESSOR_URL cfg_set)
        (engine_payload (fetched_ciphertexts icfg_nokeys world_down [''QmX'']) ''sum'')
        (hmac_sha256 world_down (HMAC_SECRET cfg_set)
           (engine_payload (fetched_ciphertexts icfg_nokeys world_down [''QmX'']) ''sum'')) = Inl refused"
    by (simp add: world_down_def)
  from e have d: "COPROCESSOR_URL cfg_set = []
       \<or> (\<exists>e. engine world_down (COPROCESSOR_URL cfg_set)
                 (engine_payload (fetched_ciphertexts icfg_nokeys world_down [''QmX'']) ''sum'')
                 (hmac_sha256 world_down (HMAC_SECRET cfg_set)
                    (engine_payload (fetched_ciphertexts icfg_nokeys world_down [''QmX'']) ''sum'')) = Inl e)"
    by blast
  from engine_down_uses_mock [OF fetches_QmX_ok d] u
  have "coprocessorVersion (projr (fst (aggregate cfg_set icfg_nokeys world_down [''QmX''] ''sum'')))
       = ''v0.9-mock''"
    and "length (filter is_post (snd (aggregate cfg_set icfg_nokeys world_down [''QmX''] ''sum''))) = 1"
    by simp_all
  with retrieve_QmX u e show ?thesis by (intro conjI)
qed

text \<open>
  With the engine URL unset the number of engine attempts is zero, not one: the mock
  answers at once.
\<close>

theorem engine_down_uses_mock_counterexample:
  "COPROCESSOR_URL cfg_unset = []
   \<and> fst (retrieve icfg_nokeys (gateway world_down) ''QmX'') = Inr (base64 ''abc'')
   \<and> length (filter is_post (snd (aggregate cfg_unset icfg_nokeys world_down [''QmX''] ''sum''))) = 0
   \<and> coprocessorVersion (projr (fst (aggregate cfg_unset icfg_nokeys world_down [''QmX''] ''sum'')))
       = ''v0.9-mock''"
proof -
  have u: "COPROCESSOR_URL cfg_unset = []" by (simp add: cfg_unset_def)
  then have d: "COPROCESSOR_URL cfg_unset = []
       \<or> (\<exists>e. engine world_down (COPROCESSOR_URL cfg_unset)
                 (engine_payload (fetched_ciphertexts icfg_nokeys world_down [''QmX'']) ''sum'')
                 (hmac_sha256 world_down (HMAC_SECRET cfg_unset)
                    (engine_payload (fetched_ciphertexts icfg_nokeys world_down [''QmX'']) ''sum'')) = Inl e)"
    by blast
  from aggregate_fallback [OF fetches_QmX_ok d] u
  have "length (filter is_post (snd (aggregate cfg_unset icfg_nokeys world_down [''QmX''] ''sum''))) = 0"
    and "coprocessorVersion (projr (fst (aggregate cfg_unset icfg_nokeys world_down [''QmX''] ''sum'')))
       = ''v0.9-mock''"
    by simp_all
  with retrieve_QmX u show ?thesis by (intro conjI)
qed

lemma mock_cid_17: "getMockCid 17 ''a'' = ''QmMockDemo17a''"
  by code_simp

lemma pinata_refused: "uploadToPinata (Inl refused) = Inl (Error ''connect ECONNREFUSED'')"
  by (simp add: uploadToPinata_def refused_def)

text \<open>
  C9. \<open>retrieve\<close> refuses, without a request, every content address that contains "Mock"
  or is the literal test address; the addresses \<open>getMockCid\<close> makes are of that kind;
  \<open>upload\<close> returns such an address when a key is missing and when the upload fails; and
  a batch that holds such an address fails in \<open>aggregate\<close> with that refusal as its cause,
  before anything is sent to the engine.
\<close>

theorem mock_cid_never_retrieved:
  "(js_includes c ''Mock'' \<or> c = ''QmYwAPJzv5CZsnAMockCID12345'' \<longrightarrow>
      retrieve icfg gw c = (Inl (Error ''Mock CID detected - skipping''), []))
   \<and> js_includes (getMockCid now rnd) ''Mock''
   \<and> (PINATA_API_KEY icfg = [] \<or> PINATA_SECRET_API_KEY icfg = [] \<longrightarrow>
        upload icfg pinata now rnd ciphertext = (getMockCid now rnd, []))
   \<and> (uploadToPinata (pinata' ciphertext) = Inl err \<longrightarrow>
        fst (upload icfg' pinata' now rnd ciphertext) = getMockCid now rnd)
   \<and> (c \<in> set cids \<and> (js_includes c ''Mock'' \<or> c = ''QmYwAPJzv5CZsnAMockCID12345'') \<longrightarrow>
        fst (aggregate cfg icfg w cids operation)
          = Inl (Error ''Coprocessor aggregation failed: Mock CID detected - skipping'')
        \<and> (\<forall>x \<in> set (snd (aggregate cfg icfg w cids operation)). \<not> is_post x))"
proof (intro conjI impI)
  assume "js_includes c ''Mock'' \<or> c = ''QmYwAPJzv5CZsnAMockCID12345''"
  then have "is_mock_cid c" by (simp add: is_mock_cid_def)
  then show "retrieve icfg gw c = (Inl (Error ''Mock CID detected - skipping''), [])"
    by (rule retrieve_mock)
next
  have "getMockCid now rnd = ''Qm'' @ ''Mock'' @ (''Demo'' @ show_nat now @ rnd)"
    by (simp add: getMockCid_def del: show_nat.simps)
  then show "js_includes (getMockCid now rnd) ''Mock''"
    by (simp only: js_includes_mid)
next
  assume "PINATA_API_KEY icfg = [] \<or> PINATA_SECRET_API_KEY icfg = []"
  then show "upload icfg pinata now rnd ciphertext = (getMockCid now rnd, [])"
    by (simp add: upload_def del: show_nat.simps)
next
  assume "uploadToPinata (pinata' ciphertext) = Inl err"
  then show "fst (upload icfg' pinata' now rnd ciphertext) = getMockCid now rnd"
    by (simp add: upload_def del: show_nat.simps)
next
  assume a: "c \<in> set cids \<and> (js_includes c ''Mock'' \<or> c = ''QmYwAPJzv5CZsnAMockCID12345'')"
  then have "is_mock_cid c" by (simp add: is_mock_cid_def)
  with a have m: "fst (promise_all_retrieve icfg w cids) = Inl (Error ''Mock CID detected - skipping'')"
    by (intro promise_all_mock [of c]) simp_all
  show "fst (aggregate cfg icfg w cids operation)
          = Inl (Error ''Coprocessor aggregation failed: Mock CID detected - skipping'')"
    unfolding aggregate_Inl [OF m] by simp
  show "\<forall>x \<in> set (snd (aggregate cfg icfg w cids operation)). \<not> is_post x"
    by (rule aggregate_effects_on_failure [OF m])
qed

theorem mock_cid_never_retrieved_witness:
  "js_includes ''QmMockDemo17a'' ''Mock''
   \<and> retrieve icfg_nokeys (gateway world_down) ''QmMockDemo17a''
       = (Inl (Error ''Mock CID detected - skipping''), [])
   \<and> PINATA_API_KEY icfg_nokeys = []
   \<and> upload icfg_nokeys (\<lambda>_. Inl refused) 17 ''a'' ''AAAA'' = (''QmMockDemo17a'', [])
   \<and> uploadToPinata (Inl refused) = Inl (Error ''connect ECONNREFUSED'')
   \<and> fst (upload icfg_keys (\<lambda>_. Inl refused) 17 ''a'' ''AAAA'') = ''QmMockDemo17a''
   \<and> ''QmMockDemo17a'' \<in> set [''QmX'', ''QmMockDemo17a'']
   \<and> fst (aggregate cfg_set icfg_nokeys world_down [''QmX'', ''QmMockDemo17a''] ''sum'')
       = Inl (Error ''Coprocessor aggregation failed: Mock CID detected - skipping'')"
proof -
  note t = mock_cid_never_retrieved [where c = "''QmMockDemo17a''" and icfg = icfg_nokeys
      and gw = "gateway world_down" and now = 17 and rnd = "''a''"
      and pinata = "\<lambda>_. Inl refused" and ciphertext = "''AAAA''"
      and pinata' = "\<lambda>_. Inl refused" and err = "Error ''connect ECONNREFUSED''"
      and icfg' = icfg_keys and cids = "[''QmX'', ''QmMockDemo17a'']" and cfg = cfg_set
      and w = world_down and operation = "''sum''", unfolded mock_cid_17]
  have i: "js_includes ''QmMockDemo17a'' ''Mock''" using t by blast
  have k: "PINATA_API_KEY icfg_nokeys = []" by (simp add: icfg_nokeys_def)
  have m: "''QmMockDemo17a'' \<in> set [''QmX'', ''QmMockDemo17a'']" by simp
  from t i have "retrieve icfg_nokeys (gateway world_down) ''QmMockDemo17a''
       = (Inl (Error ''Mock CID detected - skipping''), [])" by blast
  moreover from t k have "upload icfg_nokeys (\<lambda>_. Inl refused) 17 ''a'' ''AAAA'' = (''QmMockDemo17a'', [])"
    by blast
  moreover from t pinata_refused
  have "fst (upload icfg_keys (\<lambda>_. Inl refused) 17 ''a'' ''AAAA'') = ''QmMockDemo17a''" by blast
  moreover from t i m
  have "fst (aggregate cfg_set icfg_nokeys world_down [''QmX'', ''QmMockDemo17a''] ''sum'')
       = Inl (Error ''Coprocessor aggregation failed: Mock CID detected - skipping'')" by blast
  ultimately show ?thesis using i k m pinata_refused by (intro conjI)
qed

section \<open>Properties of the routes\<close>

text \<open>
  C5. A request whose \<open>cids\<close> is absent, not an array or an empty array is answered 400,
  whatever its \<open>op\<close>; a request with a non-empty array and an \<open>op\<close> that is not one of the
  strings sum, max, min, avg is answered 400; in both cases the handler returns before it
  calls the service, so that nothing is fetched and nothing is sent to the engine.
\<close>

theorem aggregate_validation:
  "((\<forall>cs. body_cids b \<noteq> CidsArray cs) \<or> body_cids b = CidsArray [] \<longrightarrow>
      post_aggregate cfg icfg w b
        = (failure 400 ''cids array is required and must not be empty'', []))
   \<and> (body_cids b' = CidsArray cs' \<and> cs' \<noteq> [] \<and> body_op b' = Some v
        \<and> v \<notin> set [JStr ''sum'', JStr ''max'', JStr ''min'', JStr ''avg''] \<longrightarrow>
      post_aggregate cfg icfg w b'
        = (failure 400 ''Invalid operation. Must be: sum, max, min, avg'', []))
   \<and> code (failure 400 msg) = 400"
proof (intro conjI impI)
  assume "(\<forall>cs. body_cids b \<noteq> CidsArray cs) \<or> body_cids b = CidsArray []"
  then show "post_aggregate cfg icfg w b
        = (failure 400 ''cids array is required and must not be empty'', [])"
    by (cases "body_cids b") (auto simp: post_aggregate_def Let_def)
next
  assume a: "body_cids b' = CidsArray cs' \<and> cs' \<noteq> [] \<and> body_op b' = Some v
        \<and> v \<notin> set [JStr ''sum'', JStr ''max'', JStr ''min'', JStr ''avg'']"
  then show "post_aggregate cfg icfg w b'
        = (failure 400 ''Invalid operation. Must be: sum, max, min, avg'', [])"
    by (cases v) (auto simp: post_aggregate_def)
next
  show "code (failure 400 msg) = 400" by (simp add: failure_def)
qed

theorem aggregate_validation_witness:
  "body_cids \<lparr>body_cids = CidsArray [], body_op = Some (JStr ''sum'')\<rparr> = CidsArray []
   \<and> post_aggregate cfg_set icfg_nokeys world_down
        \<lparr>body_cids = CidsArray [], body_op = Some (JStr ''sum'')\<rparr>
        = (failure 400 ''cids array is required and must not be empty'', [])
   \<and> JStr ''median'' \<notin> set [JStr ''sum'', JStr ''max'', JStr ''min'', JStr ''avg'']
   \<and> post_aggregate cfg_set icfg_nokeys world_down
        \<lparr>body_cids = CidsArray [''QmX''], body_op = Some (JStr ''median'')\<rparr>
        = (failure 400 ''Invalid operation. Must be: sum, max, min, avg'', [])"
proof -
  note t = aggregate_validation [where b = "\<lparr>body_cids = CidsArray [], body_op = Some (JStr ''sum'')\<rparr>"
      and b' = "\<lparr>body_cids = CidsArray [''QmX''], body_op = Some (JStr ''median'')\<rparr>"
      and cs' = "[''QmX'']" and v = "JStr ''median''"
      and cfg = cfg_set and icfg = icfg_nokeys and w = world_down]
  have n: "JStr ''median'' \<notin> set [JStr ''sum'', JStr ''max'', JStr ''min'', JStr ''avg'']" by simp
  from t have "post_aggregate cfg_set icfg_nokeys world_down
        \<lparr>body_cids = CidsArray [], body_op = Some (JStr ''sum'')\<rparr>
        = (failure 400 ''cids array is required and must not be empty'', [])" by simp
  moreover from t n have "post_aggregate cfg_set icfg_nokeys world_down
        \<lparr>body_cids = CidsArray [''QmX''], body_op = Some (JStr ''median'')\<rparr>
        = (failure 400 ''Invalid operation. Must be: sum, max, min, avg'', [])" by simp
  ultimately show ?thesis using n by simp
qed

lemma all_keys_nullable: "all_keys (nullable v) = []"
  by (cases v) (simp_all add: nullable_def)

lemma all_keys_proof_json:
  "all_keys (proof_json r) =
     [''cid'', ''submissionHash'', ''txHash'', ''blockNumber'', ''timestamp'', ''userAddress'', ''category'']"
  by (simp add: proof_json_def all_keys_nullable)

lemma all_keys_getProof:
  "set (all_keys (body (getProof d c)))
   \<subseteq> set [''success'', ''error'', ''proof'', ''encrypted'', ''cid'', ''submissionHash'', ''txHash'',
            ''blockNumber'', ''timestamp'', ''userAddress'', ''category'']"
  by (cases "findUnique d c") (simp_all add: getProof_def failure_def all_keys_proof_json)

lemma find_none_pending: "findUnique db_pending ''QmZ'' = None"
  by (simp add: findUnique_def db_pending_def row_pending_def)

lemma find_some_pending: "findUnique db_pending ''QmA'' = Some row_pending"
  by (simp add: findUnique_def db_pending_def row_pending_def)

text \<open>
  C6. For an unknown content address \<open>getProof\<close> answers 404. For a stored row, whatever
  its status, it answers with a \<open>proof\<close> object of exactly the seven fields cid,
  submissionHash, txHash, blockNumber, timestamp, userAddress and category, each the value
  of the row's column. No key "amount" (and no "note") occurs anywhere in an answer.
\<close>

theorem proof_is_metadata_only:
  "(findUnique d c = None \<longrightarrow> getProof d c = failure 404 ''Proof not found'')
   \<and> (findUnique d c' = Some r \<longrightarrow>
        cid r = c'
        \<and> getProof d c' =
            \<lparr>code = 200,
             body = JObj [(''success'', JBool True),
                          (''proof'',
                           JObj [(''cid'', JStr (cid r)),
                                 (''submissionHash'', JStr (submissionHash r)),
                                 (''txHash'', JStr (txHash r)),
                                 (''blockNumber'', nullable (blockNumber r)),
                                 (''timestamp'', JDate (timestamp r)),
                                 (''userAddress'', JStr (userAddress r)),
                                 (''category'', nullable (category r))]),
                          (''encrypted'', JBool True)]\<rparr>)
   \<and> code (failure 404 msg) = 404
   \<and> ''amount'' \<notin> set (all_keys (body (getProof d c'')))
   \<and> ''note'' \<notin> set (all_keys (body (getProof d c'')))"
proof (intro conjI impI)
  assume "findUnique d c = None"
  then show "getProof d c = failure 404 ''Proof not found''" by (simp add: getProof_def)
next
  assume s: "findUnique d c' = Some r"
  then show "cid r = c'" by (simp add: findUnique_Some)
  from s show "getProof d c' =
            \<lparr>code = 200,
             body = JObj [(''success'', JBool True),
                          (''proof'',
                           JObj [(''cid'', JStr (cid r)),
                                 (''submissionHash'', JStr (submissionHash r)),
                                 (''txHash'', JStr (txHash r)),
                                 (''blockNumber'', nullable (blockNumber r)),
                                 (''timestamp'', JDate (timestamp r)),
                                 (''userAddress'', JStr (userAddress r)),
                                 (''category'', nullable (category r))]),
                          (''encrypted'', JBool True)]\<rparr>"
    by (simp add: getProof_def proof_json_def)
next
  show "code (failure 404 msg) = 404" by (simp add: failure_def)
next
  show "''amount'' \<notin> set (all_keys (body (getProof d c'')))"
    using all_keys_getProof [of d c''] by auto
next
  show "''note'' \<notin> set (all_keys (body (getProof d c'')))"
    using all_keys_getProof [of d c''] by auto
qed

theorem proof_is_metadata_only_witness:
  "findUnique db_pending ''QmZ'' = None
   \<and> getProof db_pending ''QmZ'' = failure 404 ''Proof not found''
   \<and> findUnique db_pending ''QmA'' = Some row_pending
   \<and> getProof db_pending ''QmA'' =
        \<lparr>code = 200,
         body = JObj [(''success'', JBool True),
                      (''proof'',
                       JObj [(''cid'', JStr ''QmA''),
                             (''submissionHash'', JStr (hexlify32 7)),
                             (''txHash'', JStr ''pending''),
                             (''blockNumber'', JNull),
                             (''timestamp'', JDate 100000),
                             (''userAddress'', JStr ''0xab''),
                             (''category'', JStr ''food'')]),
                      (''encrypted'', JBool True)]\<rparr>"
proof -
  note t = proof_is_metadata_only [where d = db_pending and c = "''QmZ''" and c' = "''QmA''"
      and r = row_pending]
  from t find_none_pending have "getProof db_pending ''QmZ'' = failure 404 ''Proof not found''"
    by blast
  moreover from t find_some_pending have "getProof db_pending ''QmA'' =
        \<lparr>code = 200,
         body = JObj [(''success'', JBool True),
                      (''proof'',
                       JObj [(''cid'', JStr ''QmA''),
                             (''submissionHash'', JStr (hexlify32 7)),
                             (''txHash'', JStr ''pending''),
                             (''blockNumber'', JNull),
                             (''timestamp'', JDate 100000),
                             (''userAddress'', JStr ''0xab''),
                             (''category'', JStr ''food'')]),
                      (''encrypted'', JBool True)]\<rparr>"
    by (simp add: row_pending_def nullable_def)
  ultimately show ?thesis using find_none_pending find_some_pending by (intro conjI)
qed

subsection \<open>Listing records\<close>


















end
